theory Spec2Isabelle
  imports Main "HOL-Library.AList"
begin

section \<open>Supply-chain units of MARO: consumer, vehicle, simple manufacture\<close>

text \<open>
  The units are Python objects whose methods mutate their fields. Each method is a
  function from the state before the call to the state after it. A Python exception
  leaves the object as it was mutated up to the raise, so a raising call returns
  \<open>Inl (e, s)\<close> with the state \<open>s\<close> reached at the raise, and a returning call
  \<open>Inr s\<close>. Python integers are unbounded: \<open>int\<close>.
\<close>

datatype error =
    Unreachable          \<comment> \<open>\<open>Exception("Destination ... is unreachable")\<close>\<close>
  | KeyError
  | IndexError
  | TypeError
  | AttributeError
  | ZeroDivisionError
  | CollaboratorError    \<comment> \<open>raised inside a collaborator that is not part of these sources\<close>

type_synonym 's outcome = "(error \<times> 's) + 's"

definition returned :: "'s outcome \<Rightarrow> bool" where
  "returned r = (case r of Inl _ \<Rightarrow> False | Inr _ \<Rightarrow> True)"

definition state_of :: "'s outcome \<Rightarrow> 's" where
  "state_of r = (case r of Inl (e, s) \<Rightarrow> s | Inr s \<Rightarrow> s)"

subsection \<open>Python and numpy indexing\<close>

text \<open>
  \<open>xs[i]\<close> on a sequence of length \<open>n\<close>: a negative index counts from the end, an index
  outside \<open>-n .. n-1\<close> raises IndexError (\<open>None\<close> here).
\<close>

definition py_index :: "nat \<Rightarrow> int \<Rightarrow> nat option" where
  "py_index n i =
     (let j = (if i < 0 then int n + i else i)
      in if 0 \<le> j \<and> j < int n then Some (nat j) else None)"

text \<open>
  \<open>scipy.ndimage.shift(input, s, cval=c)\<close> with an integer shift \<open>s\<close> and the default
  constant mode, as the library documents it: the output has the length of the input,
  slot \<open>i\<close> of the output holds slot \<open>i - s\<close> of the input, and \<open>c\<close> where that slot does
  not exist. (The library is not part of the repository; its spline arithmetic on
  integer arrays is taken to be exact.)
\<close>

definition shift :: "int list \<Rightarrow> int \<Rightarrow> int \<Rightarrow> int list" where
  "shift input s cval =
     map (\<lambda>i. let j = int i - s
               in if 0 \<le> j \<and> j < int (length input) then input ! nat j else cval)
         [0 ..< length input]"

subsection \<open>ConsumerUnit (units/consumer.py)\<close>

text \<open>The action of a consumer: the fields that \<open>step\<close> and \<open>set_action\<close> read.\<close>

record ConsumerAction =
  a_product_id :: int
  a_source_id :: int
  a_quantity :: int
  a_vlt :: int

text \<open>\<open>Order(destination, product_id, quantity, vlt)\<close>; the destination is a facility, named
  by its id.\<close>

record Order =
  o_destination :: int
  o_product_id :: int
  o_quantity :: int
  o_vlt :: int

text \<open>The fields of the consumer's data model that the unit writes.\<close>

record ConsumerDataModel =
  dm_received :: int
  dm_total_received :: int
  dm_purchased :: int
  dm_total_purchased :: int
  dm_order_product_cost :: int
  dm_latest_consumptions :: int
  dm_order_quantity :: int

text \<open>
  \<open>open_orders\<close> is a \<open>defaultdict(Counter)\<close>: source id to (product id to quantity).
  The record is a unit after \<open>initialize()\<close>, when \<open>pending_order_daily\<close> is a sequence.
\<close>

record ConsumerUnit =
  c_facility :: int
  c_product_id :: int
  open_orders :: "int \<rightharpoonup> (int \<rightharpoonup> int)"
  received :: int
  purchased :: int
  sources :: "int list"
  pending_order_daily :: "int list"
  order_product_cost :: int
  c_action :: "ConsumerAction option"
  c_data_model :: ConsumerDataModel

text \<open>Reading \<open>open_orders[source_id][product_id]\<close>: a missing key of either level reads 0.\<close>

definition open_order_quantity :: "(int \<rightharpoonup> (int \<rightharpoonup> int)) \<Rightarrow> int \<Rightarrow> int \<Rightarrow> int" where
  "open_order_quantity oo source_id product_id =
     (case oo source_id of
        None \<Rightarrow> 0
      | Some counter \<Rightarrow> (case counter product_id of None \<Rightarrow> 0 | Some q \<Rightarrow> q))"

text \<open>\<open>open_orders[source_id][product_id] += qty_delta\<close>.\<close>

definition open_orders_add ::
  "(int \<rightharpoonup> (int \<rightharpoonup> int)) \<Rightarrow> int \<Rightarrow> int \<Rightarrow> int \<Rightarrow> (int \<rightharpoonup> (int \<rightharpoonup> int))" where
  "open_orders_add oo source_id product_id qty_delta =
     (let counter = (case oo source_id of None \<Rightarrow> Map.empty | Some c \<Rightarrow> c)
      in oo(source_id \<mapsto>
            counter(product_id \<mapsto> open_order_quantity oo source_id product_id + qty_delta)))"

definition update_open_orders :: "int \<Rightarrow> int \<Rightarrow> int \<Rightarrow> ConsumerUnit \<Rightarrow> ConsumerUnit" where
  "update_open_orders source_id product_id qty_delta c =
     (if qty_delta > 0
      then c\<lparr>open_orders := open_orders_add (open_orders c) source_id product_id qty_delta\<rparr>
      else c\<lparr>open_orders := open_orders_add (open_orders c) source_id product_id qty_delta\<rparr>)"

definition on_order_reception ::
  "int \<Rightarrow> int \<Rightarrow> int \<Rightarrow> int \<Rightarrow> ConsumerUnit \<Rightarrow> ConsumerUnit" where
  "on_order_reception source_id product_id quantity original_quantity c =
     update_open_orders source_id product_id (- original_quantity)
       (c\<lparr>received := received c + quantity\<rparr>)"

definition update_pending_order :: "ConsumerUnit \<Rightarrow> ConsumerUnit" where
  "update_pending_order c = c\<lparr>pending_order_daily := shift (pending_order_daily c) (- 1) 0\<rparr>"

text \<open>
  \<open>step\<close>. The world lookup \<open>get_facility_by_id\<close> and the distribution unit's
  \<open>place_order\<close> are not part of these sources: together they are the parameter
  \<open>place_order\<close>, which gives the cost returned for an order placed at a source id, or
  \<open>None\<close> when the lookup or the call raises. The second component of the state is the
  list of orders handed to a distribution unit by this call.
\<close>

definition ConsumerUnit_step ::
  "(int \<Rightarrow> Order \<Rightarrow> int option) \<Rightarrow> int \<Rightarrow> ConsumerUnit \<Rightarrow> (ConsumerUnit \<times> (int \<times> Order) list) outcome" where
  "ConsumerUnit_step place_order tick c0 =
     (let c1 = update_pending_order c0 in
      case c_action c1 of
        None \<Rightarrow> Inr (c1, [])
      | Some a \<Rightarrow>
          if a_quantity a \<le> 0 \<or> a_product_id a \<le> 0 \<or> a_source_id a = 0 then Inr (c1, [])
          else
            let c2 = update_open_orders (a_source_id a) (a_product_id a) (a_quantity a) c1;
                order = \<lparr>o_destination = c_facility c2, o_product_id = a_product_id a,
                         o_quantity = a_quantity a, o_vlt = a_vlt a\<rparr>
            in case place_order (a_source_id a) order of
                 None \<Rightarrow> Inl (CollaboratorError, (c2, []))
               | Some cost \<Rightarrow>
                   let c3 = c2\<lparr>order_product_cost := cost, purchased := a_quantity a,
                              c_data_model := (c_data_model c2)\<lparr>dm_latest_consumptions := 1\<rparr>\<rparr>;
                       placed = [(a_source_id a, order)];
                       n = length (pending_order_daily c3)
                   in if o_vlt order < int n then
                        (case py_index n (o_vlt order - 1) of
                           None \<Rightarrow> Inl (IndexError, (c3, placed))
                         | Some k \<Rightarrow>
                             let c4 = c3\<lparr>pending_order_daily :=
                                          (pending_order_daily c3)
                                            [k := pending_order_daily c3 ! k + o_quantity order]\<rparr>
                             in if order_product_cost c4 > 0
                                then Inr (c4\<lparr>c_data_model := (c_data_model c4)
                                            \<lparr>dm_order_product_cost := order_product_cost c4\<rparr>\<rparr>, placed)
                                else Inr (c4, placed))
                      else if order_product_cost c3 > 0
                        then Inr (c3\<lparr>c_data_model := (c_data_model c3)
                                    \<lparr>dm_order_product_cost := order_product_cost c3\<rparr>\<rparr>, placed)
                        else Inr (c3, placed))"

definition ConsumerUnit_flush_states :: "ConsumerUnit \<Rightarrow> ConsumerUnit" where
  "ConsumerUnit_flush_states c0 =
     (let c1 = (if received c0 > 0
                then c0\<lparr>c_data_model := (c_data_model c0)
                          \<lparr>dm_received := received c0,
                           dm_total_received := dm_total_received (c_data_model c0) + received c0\<rparr>\<rparr>
                else c0)
      in if purchased c1 > 0
         then c1\<lparr>c_data_model := (c_data_model c1)
                   \<lparr>dm_purchased := purchased c1,
                    dm_total_purchased := dm_total_purchased (c_data_model c1) + purchased c1\<rparr>\<rparr>
         else c1)"

text \<open>\<open>post_step\<close>; the base class's \<open>post_step\<close> sets the action to \<open>None\<close>, as the
  comment at the call says.\<close>

definition ConsumerUnit_post_step :: "int \<Rightarrow> ConsumerUnit \<Rightarrow> ConsumerUnit" where
  "ConsumerUnit_post_step tick c0 =
     (let c1 = (if c_action c0 \<noteq> None
                then c0\<lparr>c_data_model := (c_data_model c0)\<lparr>dm_latest_consumptions := 0\<rparr>\<rparr>
                else c0);
          c2 = c1\<lparr>c_action := None\<rparr>;
          c3 = (if received c2 > 0
                then c2\<lparr>c_data_model := (c_data_model c2)\<lparr>dm_received := 0\<rparr>, received := 0\<rparr>
                else c2);
          c4 = (if purchased c3 > 0
                then c3\<lparr>c_data_model := (c_data_model c3)\<lparr>dm_purchased := 0\<rparr>, purchased := 0\<rparr>
                else c3)
      in if order_product_cost c4 > 0
         then c4\<lparr>c_data_model := (c_data_model c4)\<lparr>dm_order_product_cost := 0\<rparr>\<rparr>
         else c4)"

text \<open>
  \<open>reset\<close>. The base class's \<open>reset\<close> is not part of these sources; it resets the data
  model, which is the parameter \<open>data_model_reset\<close>. \<open>pending_order_len\<close> is the world's
  setting of that name.
\<close>

definition ConsumerUnit_reset ::
  "(ConsumerDataModel \<Rightarrow> ConsumerDataModel) \<Rightarrow> nat \<Rightarrow> ConsumerUnit \<Rightarrow> ConsumerUnit" where
  "ConsumerUnit_reset data_model_reset pending_order_len c =
     c\<lparr>c_data_model := data_model_reset (c_data_model c),
       pending_order_daily := replicate pending_order_len 0,
       open_orders := Map.empty\<rparr>"

subsection \<open>StorageUnit\<close>

text \<open>
  Modelled from the spec: the storage unit (units/storage.py) is not part of these
  sources. Its state is the total capacity and the current quantity per product id; the
  capacity is one bound on the sum of all quantities.
\<close>

record StorageUnit =
  capacity :: int
  product_number :: "(int \<times> int) list"

definition get_product_number :: "StorageUnit \<Rightarrow> int \<Rightarrow> int" where
  "get_product_number st product_id =
     (case map_of (product_number st) product_id of None \<Rightarrow> 0 | Some q \<Rightarrow> q)"

definition remaining_space :: "StorageUnit \<Rightarrow> int" where
  "remaining_space st = capacity st - sum_list (map snd (product_number st))"

definition add_product :: "int \<Rightarrow> int \<Rightarrow> StorageUnit \<Rightarrow> StorageUnit" where
  "add_product product_id q st =
     st\<lparr>product_number :=
          AList.update product_id (get_product_number st product_id + q) (product_number st)\<rparr>"

text \<open>
  Modelled from the spec: \<open>try_take\<close> "succeeds only if every requested product has
  quantity \<ge> requested amount; on success, atomically decrements all requested
  quantities; on failure, no quantity is modified".
\<close>

definition try_take_products :: "(int \<times> int) list \<Rightarrow> StorageUnit \<Rightarrow> bool \<times> StorageUnit" where
  "try_take_products product_quantities st =
     (if list_all (\<lambda>(product_id, q). q \<le> get_product_number st product_id) product_quantities
      then (True, fold (\<lambda>(product_id, q). add_product product_id (- q)) product_quantities st)
      else (False, st))"

text \<open>
  Modelled from the spec: \<open>try_add\<close> without all-or-nothing "adds as much of each
  product as remaining capacity allows, per product independently, and returns the
  per-product amount actually added (may be less than requested, or zero)"; the
  capacity is shared, so the products are served in the order of the request. An amount
  added is never negative.
\<close>

fun add_partially :: "(int \<times> int) list \<Rightarrow> StorageUnit \<Rightarrow> (int \<times> int) list \<times> StorageUnit" where
  "add_partially [] st = ([], st)"
| "add_partially ((product_id, q) # rest) st =
     (let added = max 0 (min (remaining_space st) q);
          (unloaded, st') = add_partially rest (add_product product_id added st)
      in ((product_id, added) # unloaded, st'))"

text \<open>
  Modelled from the spec: with all-or-nothing, \<open>try_add\<close> "either adds every requested
  quantity (bounded by remaining capacity) or adds nothing".
\<close>

definition try_add_products ::
  "(int \<times> int) list \<Rightarrow> bool \<Rightarrow> StorageUnit \<Rightarrow> (int \<times> int) list \<times> StorageUnit" where
  "try_add_products product_quantities all_or_nothing st =
     (if all_or_nothing \<and> remaining_space st < sum_list (map snd product_quantities)
      then ([], st)
      else add_partially product_quantities st)"

subsection \<open>Facilities and the world\<close>

text \<open>
  A unit refers to its facility, and a vehicle to its destination facility, by object
  reference; both may be the same object. The facilities are a store addressed by
  facility id, and a reference is an id. \<open>products[product_id].consumer\<close> is the consumer
  of a product unit, \<open>None\<close> when the product unit has none.
\<close>

record ProductUnit =
  consumer :: "ConsumerUnit option"

record Facility =
  x :: int
  y :: int
  skus :: "int list"
  storage :: StorageUnit
  products :: "int \<rightharpoonup> ProductUnit"

text \<open>\<open>find_path\<close> is the world's path finder: a waypoint sequence, or \<open>None\<close>.\<close>

record World =
  facilities :: "int \<Rightarrow> Facility"
  find_path :: "int \<Rightarrow> int \<Rightarrow> int \<Rightarrow> int \<Rightarrow> (int \<times> int) list option"

definition set_storage :: "int \<Rightarrow> StorageUnit \<Rightarrow> World \<Rightarrow> World" where
  "set_storage facility_id st w =
     w\<lparr>facilities := (facilities w)(facility_id := (facilities w facility_id)\<lparr>storage := st\<rparr>)\<rparr>"

definition set_consumer :: "int \<Rightarrow> int \<Rightarrow> ConsumerUnit \<Rightarrow> World \<Rightarrow> World" where
  "set_consumer facility_id product_id c w =
     (let f = facilities w facility_id
      in w\<lparr>facilities := (facilities w)
            (facility_id := f\<lparr>products := (products f)(product_id \<mapsto> \<lparr>consumer = Some c\<rparr>)\<rparr>)\<rparr>)"

text \<open>\<open>facility.products[product_id].consumer\<close>, for a call of one of its methods.\<close>

definition get_consumer :: "World \<Rightarrow> int \<Rightarrow> int \<Rightarrow> error + ConsumerUnit" where
  "get_consumer w facility_id product_id =
     (case products (facilities w facility_id) product_id of
        None \<Rightarrow> Inl KeyError
      | Some pu \<Rightarrow> (case consumer pu of None \<Rightarrow> Inl AttributeError | Some c \<Rightarrow> Inr c))"

subsection \<open>VehicleUnit (units/vehicle.py)\<close>

text \<open>
  The record is a vehicle after \<open>initialize()\<close>, when \<open>max_patient\<close> is a number.
  \<open>v_dm_payload\<close> is \<open>data_model.payload\<close>.
\<close>

record VehicleUnit =
  v_facility :: int
  max_patient :: int
  destination :: "int option"
  path :: "(int \<times> int) list option"
  v_product_id :: int
  steps :: int
  payload :: int
  location :: int
  velocity :: int
  requested_quantity :: int
  patient :: int
  cost :: int
  unit_transport_cost :: int
  v_dm_payload :: int

text \<open>The unit's configuration: \<open>config.get("patient", 100)\<close> and
  \<open>config.get("unit_transport_cost", 1)\<close>.\<close>

record VehicleConfig =
  cfg_patient :: "int option"
  cfg_unit_transport_cost :: "int option"

text \<open>\<open>__init__\<close> followed by \<open>initialize()\<close>, for a vehicle of the given facility.\<close>

definition VehicleUnit_initialize :: "int \<Rightarrow> VehicleConfig \<Rightarrow> VehicleUnit" where
  "VehicleUnit_initialize facility_id config =
     \<lparr>v_facility = facility_id,
      max_patient = (case cfg_patient config of None \<Rightarrow> 100 | Some p \<Rightarrow> p),
      destination = None,
      path = None,
      v_product_id = 0,
      steps = 0,
      payload = 0,
      location = 0,
      velocity = 0,
      requested_quantity = 0,
      patient = 0,
      cost = 0,
      unit_transport_cost = (case cfg_unit_transport_cost config of None \<Rightarrow> 1 | Some u \<Rightarrow> u),
      v_dm_payload = 0\<rparr>"

definition schedule :: "World \<Rightarrow> int \<Rightarrow> int \<Rightarrow> int \<Rightarrow> int \<Rightarrow> VehicleUnit \<Rightarrow> VehicleUnit outcome" where
  "schedule w dest product_id quantity vlt v0 =
     (let v1 = v0\<lparr>v_product_id := product_id, destination := Some dest,
                  requested_quantity := quantity\<rparr>;
          v2 = v1\<lparr>path := find_path w (x (facilities w (v_facility v1)))
                                      (y (facilities w (v_facility v1)))
                                      (x (facilities w dest)) (y (facilities w dest))\<rparr>
      in if path v2 = None then Inl (Unreachable, v2)
         else Inr (v2\<lparr>steps := vlt, location := 0, velocity := vlt, patient := max_patient v2\<rparr>))"

definition try_load :: "int \<Rightarrow> World \<times> VehicleUnit \<Rightarrow> bool \<times> World \<times> VehicleUnit" where
  "try_load quantity s =
     (let (w, v) = s;
          (ok, st) = try_take_products [(v_product_id v, quantity)]
                       (storage (facilities w (v_facility v)))
      in if ok
         then (True, set_storage (v_facility v) st w,
               v\<lparr>payload := quantity, v_dm_payload := quantity\<rparr>)
         else (False, w, v))"

definition try_unload :: "World \<times> VehicleUnit \<Rightarrow> (World \<times> VehicleUnit) outcome" where
  "try_unload s =
     (let (w, v) = s in
      case destination v of
        None \<Rightarrow> Inl (AttributeError, (w, v))
      | Some dest \<Rightarrow>
          let (unloaded, st) = try_add_products [(v_product_id v, payload v)] False
                                 (storage (facilities w dest));
              w1 = set_storage dest st w
          in if length unloaded > 0 then
               (let unloaded_units = sum_list (map snd unloaded) in
                case get_consumer w1 dest (v_product_id v) of
                  Inl e \<Rightarrow> Inl (e, (w1, v))
                | Inr c \<Rightarrow>
                    Inr (set_consumer dest (v_product_id v)
                           (on_order_reception (v_facility v) (v_product_id v)
                              unloaded_units (payload v) c) w1,
                         v\<lparr>payload := payload v - unloaded_units,
                           v_dm_payload := payload v - unloaded_units\<rparr>))
             else Inr (w1, v))"

definition reset_internal_states :: "VehicleUnit \<Rightarrow> VehicleUnit" where
  "reset_internal_states v =
     v\<lparr>destination := None, path := None, payload := 0, v_product_id := 0, steps := 0,
       location := 0, requested_quantity := 0, velocity := 0, patient := max_patient v\<rparr>"

definition reset_data_model :: "VehicleUnit \<Rightarrow> VehicleUnit" where
  "reset_data_model v = v\<lparr>v_dm_payload := 0\<rparr>"

text \<open>The last statement of \<open>step\<close>.\<close>

definition record_cost :: "VehicleUnit \<Rightarrow> VehicleUnit" where
  "record_cost v = v\<lparr>cost := payload v * unit_transport_cost v\<rparr>"

text \<open>The abandonment inside \<open>step\<close>: the open order is rolled back at the destination's
  consumer and the vehicle is reset.\<close>

definition abandon :: "World \<times> VehicleUnit \<Rightarrow> (World \<times> VehicleUnit) outcome" where
  "abandon s =
     (let (w, v) = s in
      case destination v of
        None \<Rightarrow> Inl (AttributeError, (w, v))
      | Some dest \<Rightarrow>
          (case get_consumer w dest (v_product_id v) of
             Inl e \<Rightarrow> Inl (e, (w, v))
           | Inr c \<Rightarrow>
               Inr (set_consumer dest (v_product_id v)
                      (update_open_orders (v_facility v) (v_product_id v)
                         (- requested_quantity v) c) w,
                    reset_data_model (reset_internal_states v))))"

text \<open>The block "Moving to destination" of \<open>step\<close>, followed by the last statement.
  \<open>len(self.path)\<close> raises TypeError when the path is \<open>None\<close>.\<close>

definition move :: "World \<times> VehicleUnit \<Rightarrow> (World \<times> VehicleUnit) outcome" where
  "move s =
     (let (w, v) = s in
      if payload v > 0 then
        (let v1 = v\<lparr>location := location v + velocity v, steps := steps v - 1\<rparr> in
         case path v1 of
           None \<Rightarrow> Inl (TypeError, (w, v1))
         | Some p \<Rightarrow>
             if location v1 \<ge> int (length p)
             then Inr (w, record_cost (v1\<lparr>location := int (length p) - 1\<rparr>))
             else Inr (w, record_cost v1))
      else Inr (w, record_cost v))"

definition VehicleUnit_step :: "int \<Rightarrow> World \<times> VehicleUnit \<Rightarrow> (World \<times> VehicleUnit) outcome" where
  "VehicleUnit_step tick s =
     (let (w, v) = s in
      if steps v > 0 then
        (if location v = 0 \<and> payload v = 0 then
           (case try_load (requested_quantity v) (w, v) of
              (True, w1, v1) \<Rightarrow> Inr (w1, v1)
            | (False, w1, v1) \<Rightarrow>
                let v2 = v1\<lparr>patient := patient v1 - 1\<rparr> in
                if patient v2 < 0 then
                  (case abandon (w1, v2) of
                     Inl e \<Rightarrow> Inl e
                   | Inr s3 \<Rightarrow> move s3)
                else move (w1, v2))
         else move (w, v))
      else
        (case (if payload v > 0 then try_unload (w, v) else Inr (w, v)) of
           Inl e \<Rightarrow> Inl e
         | Inr (w1, v1) \<Rightarrow> Inr (w1, record_cost (reset_data_model (reset_internal_states v1)))))"

text \<open>\<open>reset\<close>; the base class's \<open>reset\<close> resets the data model, whose payload
  \<open>_reset_data_model\<close> sets again.\<close>

definition VehicleUnit_reset :: "VehicleUnit \<Rightarrow> VehicleUnit" where
  "VehicleUnit_reset v = reset_data_model (reset_internal_states v)"

text \<open>Successive ticks of one vehicle: the next \<open>step\<close> runs when the last one returned.\<close>

definition next_step ::
  "int \<Rightarrow> (World \<times> VehicleUnit) outcome \<Rightarrow> (World \<times> VehicleUnit) outcome" where
  "next_step tick r = (case r of Inl e \<Rightarrow> Inl e | Inr s \<Rightarrow> VehicleUnit_step tick s)"

subsection \<open>SimpleManufactureUnit (units/simplemanufacture.py)\<close>

record ManufactureAction =
  production_rate :: int

record SimpleManufactureUnit =
  m_facility :: int
  m_product_id :: int
  manufacture_number :: int
  m_action :: "ManufactureAction option"

text \<open>\<open>capacity // sku_num\<close> raises ZeroDivisionError when the facility has no SKU; on
  integers with a positive divisor \<open>//\<close> is \<open>div\<close>.\<close>

definition SimpleManufactureUnit_step ::
  "World \<Rightarrow> int \<Rightarrow> SimpleManufactureUnit \<Rightarrow> SimpleManufactureUnit outcome" where
  "SimpleManufactureUnit_step w tick m0 =
     (let m1 = m0\<lparr>manufacture_number := 0\<rparr> in
      case m_action m1 of
        None \<Rightarrow> Inr m1
      | Some a \<Rightarrow>
          if production_rate a > 0 then
            (let rate = production_rate a;
                 sku_num = length (skus (facilities w (m_facility m1)))
             in if sku_num = 0 then Inl (ZeroDivisionError, m1)
                else
                  let unit_num_upper_bound =
                        capacity (storage (facilities w (m_facility m1))) div int sku_num;
                      current_product_number =
                        get_product_number (storage (facilities w (m_facility m1))) (m_product_id m1)
                  in Inr (m1\<lparr>manufacture_number :=
                               max 0 (min (unit_num_upper_bound - current_product_number) rate)\<rparr>))
          else Inr m1)"

text \<open>The open-order ledger entry that the consumer of a facility's product holds for a
  source facility; \<open>None\<close> when the facility has no such consumer.\<close>

definition open_orders_at :: "World \<Rightarrow> int \<Rightarrow> int \<Rightarrow> int \<Rightarrow> int option" where
  "open_orders_at w facility_id product_id source_id =
     (case get_consumer w facility_id product_id of
        Inl e \<Rightarrow> None
      | Inr c \<Rightarrow> Some (open_order_quantity (open_orders c) source_id product_id))"

subsection \<open>A concrete network\<close>

text \<open>
  Facility 1 is the source and owns the vehicle, facility 2 is the destination; the
  product has id 1. The destination's storage has capacity 20 and holds 9 units of
  product 1 and 7 of product 2, so 4 units are free. Its consumer has 10 units on open
  order from facility 1.
\<close>

definition ex_data_model :: ConsumerDataModel where
  "ex_data_model = \<lparr>dm_received = 0, dm_total_received = 0, dm_purchased = 0,
      dm_total_purchased = 0, dm_order_product_cost = 0, dm_latest_consumptions = 0,
      dm_order_quantity = 0\<rparr>"

text \<open>A consumer as \<open>initialize()\<close> leaves it, with a window of 3 lead-time buckets.\<close>

definition ex_new_consumer :: ConsumerUnit where
  "ex_new_consumer = \<lparr>c_facility = 2, c_product_id = 1, open_orders = Map.empty, received = 0,
      purchased = 0, sources = [1], pending_order_daily = replicate 3 0, order_product_cost = 0,
      c_action = None, c_data_model = ex_data_model\<rparr>"

definition ex_consumer :: ConsumerUnit where
  "ex_consumer = ex_new_consumer\<lparr>open_orders := [1 \<mapsto> [1 \<mapsto> 10]],
      pending_order_daily := [0, 10, 0]\<rparr>"

definition ex_source :: Facility where
  "ex_source = \<lparr>x = 0, y = 0, skus = [1],
      storage = \<lparr>capacity = 100, product_number = [(1, 0)]\<rparr>, products = Map.empty\<rparr>"

definition ex_destination :: Facility where
  "ex_destination = \<lparr>x = 3, y = 4, skus = [1, 2],
      storage = \<lparr>capacity = 20, product_number = [(1, 9), (2, 7)]\<rparr>,
      products = [1 \<mapsto> \<lparr>consumer = Some ex_consumer\<rparr>]\<rparr>"

definition ex_find_path :: "int \<Rightarrow> int \<Rightarrow> int \<Rightarrow> int \<Rightarrow> (int \<times> int) list option" where
  "ex_find_path x1 y1 x2 y2 = Some [(x1, y1), (x2, y2)]"

definition ex_facilities :: "int \<Rightarrow> Facility" where
  "ex_facilities facility_id = (if facility_id = 2 then ex_destination else ex_source)"

text \<open>The source holds none of the product in \<open>ex_world\<close> and 10 units in
  \<open>ex_world_stocked\<close>.\<close>

definition ex_world :: World where
  "ex_world = \<lparr>facilities = ex_facilities, find_path = ex_find_path\<rparr>"

definition ex_world_stocked :: World where
  "ex_world_stocked = set_storage 1 \<lparr>capacity = 100, product_number = [(1, 10)]\<rparr> ex_world"

text \<open>A world whose path finder answers every query with the empty waypoint sequence.\<close>

definition ex_empty_path :: "int \<Rightarrow> int \<Rightarrow> int \<Rightarrow> int \<Rightarrow> (int \<times> int) list option" where
  "ex_empty_path x1 y1 x2 y2 = Some []"

definition ex_world_empty_route :: World where
  "ex_world_empty_route = \<lparr>facilities = ex_facilities, find_path = ex_empty_path\<rparr>"

text \<open>A vehicle of facility 1 with patience 3 and unit transport cost 1, then scheduled to
  carry 10 units of product 1 to facility 2 with lead time 2.\<close>

definition ex_vehicle :: VehicleUnit where
  "ex_vehicle = VehicleUnit_initialize 1 \<lparr>cfg_patient = Some 3, cfg_unit_transport_cost = Some 1\<rparr>"

definition ex_scheduled :: VehicleUnit where
  "ex_scheduled = state_of (schedule ex_world 2 1 10 2 ex_vehicle)"

text \<open>Its ticks in the stocked world: it loads on tick 1, moves on ticks 2 and 3, and
  unloads on tick 4.\<close>

definition ex_loaded :: "(World \<times> VehicleUnit) outcome" where
  "ex_loaded = VehicleUnit_step 1 (ex_world_stocked, ex_scheduled)"

definition ex_moved :: "(World \<times> VehicleUnit) outcome" where
  "ex_moved = next_step 2 ex_loaded"

definition ex_arrived :: "(World \<times> VehicleUnit) outcome" where
  "ex_arrived = next_step 3 ex_moved"

definition ex_unloaded :: "(World \<times> VehicleUnit) outcome" where
  "ex_unloaded = next_step 4 ex_arrived"

definition ex_next_tick :: "(World \<times> VehicleUnit) outcome" where
  "ex_next_tick = next_step 5 ex_unloaded"

text \<open>Its four ticks in the world whose source holds none of the product.\<close>

definition ex_starved :: "(World \<times> VehicleUnit) outcome" where
  "ex_starved = next_step 4 (next_step 3 (next_step 2 (VehicleUnit_step 1 (ex_world, ex_scheduled))))"

text \<open>The vehicle that \<open>ex_arrived\<close> reaches, written out.\<close>

definition ex_arrived_vehicle :: VehicleUnit where
  "ex_arrived_vehicle = ex_scheduled\<lparr>steps := 0, payload := 10, location := 1, cost := 10,
      v_dm_payload := 10\<rparr>"

text \<open>Two worlds for the consumer: one that knows no facility of the source id, and one
  whose distribution unit places every order at cost 2.\<close>

definition ex_no_facility :: "int \<Rightarrow> Order \<Rightarrow> int option" where
  "ex_no_facility source_id order = None"

definition ex_place_order :: "int \<Rightarrow> Order \<Rightarrow> int option" where
  "ex_place_order source_id order = Some 2"


definition ex_zero_lead_time :: ConsumerUnit where
  "ex_zero_lead_time = ex_consumer\<lparr>c_action :=
      Some \<lparr>a_product_id = 1, a_source_id = 1, a_quantity = 5, a_vlt = 0\<rparr>\<rparr>"


definition ex_zero_quantity :: ConsumerUnit where
  "ex_zero_quantity = ex_consumer\<lparr>c_action :=
      Some \<lparr>a_product_id = 1, a_source_id = 1, a_quantity = 0, a_vlt = 2\<rparr>\<rparr>"

definition ex_negative_source :: ConsumerUnit where
  "ex_negative_source = ex_consumer\<lparr>c_action :=
      Some \<lparr>a_product_id = 1, a_source_id = - 1, a_quantity = 5, a_vlt = 2\<rparr>\<rparr>"

definition ex_data_model_reset :: "ConsumerDataModel \<Rightarrow> ConsumerDataModel" where
  "ex_data_model_reset dm = ex_data_model"

text \<open>One full tick (\<open>step\<close>, \<open>flush_states\<close>, \<open>post_step\<close>) of a new consumer that orders
  5 units.\<close>

definition ex_ticked :: ConsumerUnit where
  "ex_ticked = ConsumerUnit_post_step 1 (ConsumerUnit_flush_states
      (fst (state_of (ConsumerUnit_step ex_place_order 1
         (ex_new_consumer\<lparr>c_action :=
            Some \<lparr>a_product_id = 1, a_source_id = 1, a_quantity = 5, a_vlt = 2\<rparr>\<rparr>)))))"

definition ex_manufacture :: SimpleManufactureUnit where
  "ex_manufacture = \<lparr>m_facility = 2, m_product_id = 1, manufacture_number = 0,
      m_action = Some \<lparr>production_rate = 5\<rparr>\<rparr>"

section \<open>Properties\<close>

subsection \<open>Auxiliary facts\<close>

lemma returned_Inr: "returned r \<Longrightarrow> r = Inr (state_of r)"
  by (cases r) (auto simp add: returned_def state_of_def)

lemma length_shift: "length (shift xs s c) = length xs"
  by (simp add: shift_def)

text \<open>Shifting by \<open>-1\<close> drops the first slot and enters the fill value at the end.\<close>

lemma shift_left_one: "shift xs (- 1) 0 = (if xs = [] then [] else tl xs @ [0])"
proof (cases xs)
  case Nil
  then show ?thesis by (simp add: shift_def)
next
  case (Cons a as)
  have "shift (a # as) (- 1) 0 = as @ [0]"
  proof (rule nth_equalityI)
    show "length (shift (a # as) (- 1) 0) = length (as @ [0])" by (simp add: shift_def)
  next
    fix i assume "i < length (shift (a # as) (- 1) 0)"
    then have i: "i < Suc (length as)" by (simp add: shift_def)
    then have "shift (a # as) (- 1) 0 ! i = (if i < length as then as ! i else 0)"
      unfolding shift_def by (simp add: nth_map_upt [where i=i and m=0] nat_add_distrib del: upt_Suc)
    then show "shift (a # as) (- 1) 0 ! i = (as @ [0]) ! i"
      using i by (simp add: nth_append)
  qed
  with Cons show ?thesis by simp
qed

text \<open>Inside \<open>-n .. n-1\<close> a Python index is the index modulo the length.\<close>

lemma py_index_mod:
  assumes "- int n \<le> i" "i < int n"
  shows "py_index n i = Some (nat (i mod int n))"
proof (cases "i < 0")
  case True
  have "(i + int n) mod int n = i mod int n" by simp
  moreover have "(i + int n) mod int n = i + int n"
    using True assms by (intro mod_pos_pos_trivial) auto
  ultimately show ?thesis using True assms by (simp add: py_index_def Let_def)
next
  case False
  then have "i mod int n = i" using assms by (intro mod_pos_pos_trivial) auto
  then show ?thesis using False assms by (simp add: py_index_def Let_def)
qed

lemma open_order_quantity_add:
  "open_order_quantity (open_orders_add oo s p d) s' p' =
     (if s' = s \<and> p' = p then open_order_quantity oo s p + d else open_order_quantity oo s' p')"
  by (simp add: open_orders_add_def open_order_quantity_def Let_def split: option.splits)

lemma get_product_number_add_product:
  "get_product_number (add_product p q st) p' =
     (if p' = p then get_product_number st p + q else get_product_number st p')"
  by (simp add: get_product_number_def add_product_def update_conv')

lemma try_add_single:
  "try_add_products [(p, q)] False st =
     ([(p, max 0 (min (remaining_space st) q))],
      add_product p (max 0 (min (remaining_space st) q)) st)"
  by (simp add: try_add_products_def Let_def)

lemma try_take_single:
  "try_take_products [(p, q)] st =
     (if q \<le> get_product_number st p then (True, add_product p (- q) st) else (False, st))"
  by (simp add: try_take_products_def)

lemma get_consumer_set_storage: "get_consumer (set_storage d st w) f p = get_consumer w f p"
  by (simp add: get_consumer_def set_storage_def)

lemma get_consumer_set_consumer: "get_consumer (set_consumer d p c w) d p = Inr c"
  by (simp add: get_consumer_def set_consumer_def Let_def)

lemma storage_set_consumer:
  "storage (facilities (set_consumer d p c w) f) = storage (facilities w f)"
  by (simp add: set_consumer_def Let_def)

lemma storage_set_storage:
  "storage (facilities (set_storage d st w) f) = (if f = d then st else storage (facilities w f))"
  by (simp add: set_storage_def)

lemma move_cost:
  "move (w, v) = Inr (w', v') \<Longrightarrow> cost v' = payload v' * unit_transport_cost v'"
  by (auto simp add: move_def Let_def record_cost_def split: if_splits option.splits)

text \<open>A tick on which the source storage holds less than the requested quantity.\<close>

lemma failed_load_step:
  assumes "steps v > 0" and "location v = 0" and "payload v = 0"
    and "get_product_number (storage (facilities w (v_facility v))) (v_product_id v) < requested_quantity v"
  shows "VehicleUnit_step tick (w, v) =
           (if patient v - 1 < 0
            then (case abandon (w, v\<lparr>patient := patient v - 1\<rparr>) of Inl e \<Rightarrow> Inl e | Inr s \<Rightarrow> move s)
            else Inr (w, v\<lparr>patient := patient v - 1, cost := 0\<rparr>))"
  using assms
  by (simp add: VehicleUnit_step_def try_load_def try_take_single Let_def move_def record_cost_def)

text \<open>A step with a valid action whose order the distribution unit places.\<close>

lemma step_valid_placed:
  assumes a: "c_action c = Some a"
    and valid: "0 < a_quantity a" "0 < a_product_id a" "a_source_id a \<noteq> 0"
    and po: "place_order (a_source_id a)
               \<lparr>o_destination = c_facility c, o_product_id = a_product_id a,
                o_quantity = a_quantity a, o_vlt = a_vlt a\<rparr> = Some order_cost"
    and idx: "a_vlt a < int (length (pending_order_daily c)) \<Longrightarrow>
                py_index (length (pending_order_daily c)) (a_vlt a - 1) = Some k"
  shows "returned (ConsumerUnit_step place_order tick c) \<and>
         pending_order_daily (fst (state_of (ConsumerUnit_step place_order tick c))) =
           (let shifted = shift (pending_order_daily c) (- 1) 0
            in if a_vlt a < int (length (pending_order_daily c))
               then shifted[k := shifted ! k + a_quantity a] else shifted)"
  using a valid po idx
  by (simp add: ConsumerUnit_step_def update_pending_order_def update_open_orders_def Let_def
        returned_def state_of_def length_shift)

lemma step_no_valid_action:
  assumes "c_action c = None \<or>
           (\<exists>a. c_action c = Some a \<and> (a_quantity a \<le> 0 \<or> a_product_id a \<le> 0 \<or> a_source_id a = 0))"
  shows "ConsumerUnit_step place_order tick c =
           Inr (c\<lparr>pending_order_daily := shift (pending_order_daily c) (- 1) 0\<rparr>, [])"
  using assms by (auto simp add: ConsumerUnit_step_def update_pending_order_def Let_def)

lemma ex_consumer_at_destination: "get_consumer ex_world 2 1 = Inr ex_consumer"
  by (simp add: get_consumer_def ex_world_def ex_facilities_def ex_destination_def)

lemma ex_arrived_vehicle_reached: "snd (state_of ex_arrived) = ex_arrived_vehicle"
  by code_simp

subsection \<open>Consumer: receiving an order\<close>

text \<open>
  C2. Every call \<open>on_order_reception(source_id, product_id, quantity, original_quantity)\<close>
  increases the received counter by exactly the quantity received and decreases the
  open-order ledger entry of (source_id, product_id) by exactly the quantity originally
  ordered, not by the delivered amount; every other ledger entry reads as before.
\<close>

theorem on_order_reception_counts:
  "received (on_order_reception source_id product_id quantity original_quantity c)
     = received c + quantity \<and>
   open_order_quantity
       (open_orders (on_order_reception source_id product_id quantity original_quantity c))
       source_id product_id
     = open_order_quantity (open_orders c) source_id product_id - original_quantity \<and>
   (\<forall>s p. (s, p) \<noteq> (source_id, product_id) \<longrightarrow>
      open_order_quantity
          (open_orders (on_order_reception source_id product_id quantity original_quantity c)) s p
        = open_order_quantity (open_orders c) s p)"
  by (simp add: on_order_reception_def update_open_orders_def open_order_quantity_add)

text \<open>
  The consumer with 10 units on open order from facility 1 receives 4 of the 10 units
  ordered: the entry of (1, 1) falls from 10 to 0, and the entry of another source,
  (3, 1), stays 0.
\<close>

theorem on_order_reception_counts_witness:
  "(3, 1) \<noteq> (1 :: int, 1 :: int) \<and>
   received (on_order_reception 1 1 4 10 ex_consumer) = 4 \<and>
   open_order_quantity (open_orders (on_order_reception 1 1 4 10 ex_consumer)) 1 1 = 0 \<and>
   open_order_quantity (open_orders (on_order_reception 1 1 4 10 ex_consumer)) 3 1 = 0"
proof -
  have other: "(3, 1) \<noteq> (1 :: int, 1 :: int)" by simp
  have r: "received ex_consumer = 0" by code_simp
  have q: "open_order_quantity (open_orders ex_consumer) 1 1 = 10" by code_simp
  have q': "open_order_quantity (open_orders ex_consumer) 3 1 = 0" by code_simp
  show ?thesis
    using on_order_reception_counts [of 1 1 4 10 ex_consumer] other r q q' by simp
qed

subsection \<open>Vehicle: scheduling a job\<close>

text \<open>
  C5, amended. \<open>schedule(destination, product_id, quantity, vlt)\<close> raises its routing
  error if and only if the path finder returns \<open>None\<close> for the vehicle's facility and the
  destination. For every other result, the empty waypoint sequence included, it returns
  with the job armed: the remaining steps are the lead time, the location is 0, the
  velocity is the lead time and the patience is the configured maximum.
\<close>

theorem schedule_routing:
  fixes w v dest
  defines "route \<equiv> find_path w (x (facilities w (v_facility v))) (y (facilities w (v_facility v)))
                                (x (facilities w dest)) (y (facilities w dest))"
  shows "((\<exists>s. schedule w dest product_id quantity vlt v = Inl (Unreachable, s)) \<longleftrightarrow> route = None) \<and>
         (\<not> returned (schedule w dest product_id quantity vlt v) \<longleftrightarrow> route = None) \<and>
         (route = Some [] \<longrightarrow> returned (schedule w dest product_id quantity vlt v)) \<and>
         (route \<noteq> None \<longrightarrow>
            steps (state_of (schedule w dest product_id quantity vlt v)) = vlt \<and>
            location (state_of (schedule w dest product_id quantity vlt v)) = 0 \<and>
            velocity (state_of (schedule w dest product_id quantity vlt v)) = vlt \<and>
            patient (state_of (schedule w dest product_id quantity vlt v)) = max_patient v \<and>
            path (state_of (schedule w dest product_id quantity vlt v)) = route \<and>
            destination (state_of (schedule w dest product_id quantity vlt v)) = Some dest \<and>
            v_product_id (state_of (schedule w dest product_id quantity vlt v)) = product_id \<and>
            requested_quantity (state_of (schedule w dest product_id quantity vlt v)) = quantity)"
  unfolding route_def
  by (simp add: schedule_def Let_def returned_def state_of_def)

text \<open>The vehicle of facility 1, with patience 3, scheduled to facility 2 with lead time 2
  where a route exists.\<close>

theorem schedule_routing_witness:
  "find_path ex_world (x (facilities ex_world (v_facility ex_vehicle)))
       (y (facilities ex_world (v_facility ex_vehicle)))
       (x (facilities ex_world 2)) (y (facilities ex_world 2)) \<noteq> None \<and>
   returned (schedule ex_world 2 1 10 2 ex_vehicle) \<and>
   steps (state_of (schedule ex_world 2 1 10 2 ex_vehicle)) = 2 \<and>
   location (state_of (schedule ex_world 2 1 10 2 ex_vehicle)) = 0 \<and>
   velocity (state_of (schedule ex_world 2 1 10 2 ex_vehicle)) = 2 \<and>
   patient (state_of (schedule ex_world 2 1 10 2 ex_vehicle)) = 3 \<and>
   find_path ex_world_empty_route (x (facilities ex_world_empty_route (v_facility ex_vehicle)))
       (y (facilities ex_world_empty_route (v_facility ex_vehicle)))
       (x (facilities ex_world_empty_route 2)) (y (facilities ex_world_empty_route 2)) = Some [] \<and>
   returned (schedule ex_world_empty_route 2 1 10 2 ex_vehicle)"
proof -
  have route: "find_path ex_world (x (facilities ex_world (v_facility ex_vehicle)))
       (y (facilities ex_world (v_facility ex_vehicle)))
       (x (facilities ex_world 2)) (y (facilities ex_world 2)) \<noteq> None"
    by code_simp
  have empty: "find_path ex_world_empty_route
       (x (facilities ex_world_empty_route (v_facility ex_vehicle)))
       (y (facilities ex_world_empty_route (v_facility ex_vehicle)))
       (x (facilities ex_world_empty_route 2)) (y (facilities ex_world_empty_route 2)) = Some []"
    by code_simp
  have m: "max_patient ex_vehicle = 3" by code_simp
  show ?thesis
    using schedule_routing [where w = ex_world and v = ex_vehicle and dest = 2
        and product_id = 1 and quantity = 10 and vlt = 2]
      schedule_routing [where w = ex_world_empty_route and v = ex_vehicle and dest = 2
        and product_id = 1 and quantity = 10 and vlt = 2]
      route empty m
    by simp
qed

text \<open>
  The claim as the specification reads it, where an empty result of the path finder is
  no route as well, fails: in the world whose path finder returns the empty waypoint
  sequence, \<open>schedule\<close> does not raise. It returns with the empty path stored and the job
  armed with 2 remaining steps, velocity 2 and patience 3.
\<close>

theorem schedule_routing_counterexample:
  "find_path ex_world_empty_route (x (facilities ex_world_empty_route (v_facility ex_vehicle)))
       (y (facilities ex_world_empty_route (v_facility ex_vehicle)))
       (x (facilities ex_world_empty_route 2)) (y (facilities ex_world_empty_route 2)) = Some [] \<and>
   returned (schedule ex_world_empty_route 2 1 10 2 ex_vehicle) \<and>
   path (state_of (schedule ex_world_empty_route 2 1 10 2 ex_vehicle)) = Some [] \<and>
   destination (state_of (schedule ex_world_empty_route 2 1 10 2 ex_vehicle)) = Some 2 \<and>
   steps (state_of (schedule ex_world_empty_route 2 1 10 2 ex_vehicle)) = 2 \<and>
   velocity (state_of (schedule ex_world_empty_route 2 1 10 2 ex_vehicle)) = 2 \<and>
   patient (state_of (schedule ex_world_empty_route 2 1 10 2 ex_vehicle)) = 3"
  by code_simp

subsection \<open>Simple manufacture: the number produced\<close>

text \<open>
  C7. On every tick of a simple manufacture unit: when the action has a positive
  production rate, the number produced is
  \<open>max(0, min(capacity share - current product number, rate))\<close>, where the capacity
  share is the storage capacity of the facility integer-divided by the number of its
  SKUs (a facility that has the unit carries at least one SKU); without an action, or
  with a rate that is not positive, the number produced is 0.
\<close>

theorem simple_manufacture_step:
  "(m_action m = Some a \<and> 0 < production_rate a \<and> skus (facilities w (m_facility m)) \<noteq> [] \<longrightarrow>
      SimpleManufactureUnit_step w tick m =
        Inr (m\<lparr>manufacture_number :=
                 max 0 (min (capacity (storage (facilities w (m_facility m)))
                               div int (length (skus (facilities w (m_facility m))))
                             - get_product_number (storage (facilities w (m_facility m)))
                                 (m_product_id m))
                            (production_rate a))\<rparr>)) \<and>
   ((m_action m = None \<or> (\<exists>a. m_action m = Some a \<and> production_rate a \<le> 0)) \<longrightarrow>
      SimpleManufactureUnit_step w tick m = Inr (m\<lparr>manufacture_number := 0\<rparr>))"
  by (auto simp add: SimpleManufactureUnit_step_def Let_def)

text \<open>
  At facility 2 (capacity 20, two SKUs, 9 units of product 1 in store) a rate of 5
  produces \<open>min (20 div 2 - 9) 5 = 1\<close>; without an action nothing is produced.
\<close>

theorem simple_manufacture_step_witness:
  "m_action ex_manufacture = Some \<lparr>production_rate = 5\<rparr> \<and>
   skus (facilities ex_world (m_facility ex_manufacture)) \<noteq> [] \<and>
   SimpleManufactureUnit_step ex_world 1 ex_manufacture
     = Inr (ex_manufacture\<lparr>manufacture_number := 1\<rparr>) \<and>
   m_action (ex_manufacture\<lparr>m_action := None\<rparr>) = None \<and>
   SimpleManufactureUnit_step ex_world 1 (ex_manufacture\<lparr>m_action := None\<rparr>)
     = Inr (ex_manufacture\<lparr>m_action := None, manufacture_number := 0\<rparr>)"
proof -
  have a: "m_action ex_manufacture = Some \<lparr>production_rate = 5\<rparr>" by code_simp
  have s: "skus (facilities ex_world (m_facility ex_manufacture)) \<noteq> []" by code_simp
  have n: "max 0 (min (capacity (storage (facilities ex_world (m_facility ex_manufacture)))
                         div int (length (skus (facilities ex_world (m_facility ex_manufacture))))
                       - get_product_number (storage (facilities ex_world (m_facility ex_manufacture)))
                           (m_product_id ex_manufacture)) 5) = 1"
    by code_simp
  have none: "m_action (ex_manufacture\<lparr>m_action := None\<rparr>) = None" by simp
  show ?thesis
    using simple_manufacture_step [of ex_manufacture "\<lparr>production_rate = 5\<rparr>" ex_world 1]
      simple_manufacture_step [of "ex_manufacture\<lparr>m_action := None\<rparr>" "\<lparr>production_rate = 5\<rparr>" ex_world 1]
      a s n none
    by simp
qed

subsection \<open>Vehicle: starved loading\<close>

text \<open>
  C4. A vehicle with patience 3 waits to load 10 units at a source storage that holds
  none of the product for four consecutive ticks. On ticks 1 to 3 the load fails and
  the patience counts 3, 2, 1, 0; on tick 4 the patience falls below 0 and the vehicle
  aborts: the open-order ledger entry of the destination's consumer for (source
  facility, product) decreases by the full requested quantity 10, nothing is delivered
  (no storage changes and the received counter stays), and the vehicle is back in the
  job-less state.
\<close>

theorem starved_loading:
  assumes "steps v > 0" and "location v = 0" and "payload v = 0"
    and "patient v = 3" and "requested_quantity v = 10"
    and "destination v = Some d"
    and "get_consumer w d (v_product_id v) = Inr c"
    and "get_product_number (storage (facilities w (v_facility v))) (v_product_id v) = 0"
  shows "let t1 = VehicleUnit_step 1 (w, v); t2 = next_step 2 t1; t3 = next_step 3 t2;
             t4 = next_step 4 t3
         in t1 = Inr (w, v\<lparr>patient := 2, cost := 0\<rparr>) \<and>
            t2 = Inr (w, v\<lparr>patient := 1, cost := 0\<rparr>) \<and>
            t3 = Inr (w, v\<lparr>patient := 0, cost := 0\<rparr>) \<and>
            (\<exists>w' v' c'. t4 = Inr (w', v') \<and>
               get_consumer w' d (v_product_id v) = Inr c' \<and>
               open_order_quantity (open_orders c') (v_facility v) (v_product_id v)
                 = open_order_quantity (open_orders c) (v_facility v) (v_product_id v) - 10 \<and>
               received c' = received c \<and>
               (\<forall>f. storage (facilities w' f) = storage (facilities w f)) \<and>
               destination v' = None \<and> path v' = None \<and> payload v' = 0 \<and> steps v' = 0 \<and>
               location v' = 0 \<and> requested_quantity v' = 0 \<and> v_product_id v' = 0 \<and>
               patient v' = max_patient v)"
proof -
  let ?p = "v_product_id v"
  have t1: "VehicleUnit_step 1 (w, v) = Inr (w, v\<lparr>patient := 2, cost := 0\<rparr>)"
    using assms by (simp add: failed_load_step)
  have t2: "VehicleUnit_step 2 (w, v\<lparr>patient := 2, cost := 0\<rparr>) = Inr (w, v\<lparr>patient := 1, cost := 0\<rparr>)"
    using assms by (simp add: failed_load_step)
  have t3: "VehicleUnit_step 3 (w, v\<lparr>patient := 1, cost := 0\<rparr>) = Inr (w, v\<lparr>patient := 0, cost := 0\<rparr>)"
    using assms by (simp add: failed_load_step)
  let ?c = "update_open_orders (v_facility v) ?p (- 10) c"
  let ?v = "record_cost (reset_data_model (reset_internal_states (v\<lparr>patient := - 1, cost := 0\<rparr>)))"
  have t4: "VehicleUnit_step 4 (w, v\<lparr>patient := 0, cost := 0\<rparr>) = Inr (set_consumer d ?p ?c w, ?v)"
    using assms
    by (simp add: failed_load_step abandon_def move_def reset_internal_states_def reset_data_model_def)
  have ledger: "open_order_quantity (open_orders ?c) (v_facility v) ?p
      = open_order_quantity (open_orders c) (v_facility v) ?p - 10"
    by (simp add: update_open_orders_def open_order_quantity_add)
  have rec: "received ?c = received c" by (simp add: update_open_orders_def)
  have idle: "destination ?v = None \<and> path ?v = None \<and> payload ?v = 0 \<and> steps ?v = 0 \<and>
      location ?v = 0 \<and> requested_quantity ?v = 0 \<and> v_product_id ?v = 0 \<and> patient ?v = max_patient v"
    by (simp add: record_cost_def reset_data_model_def reset_internal_states_def)
  have "\<exists>w' v' c'. VehicleUnit_step 4 (w, v\<lparr>patient := 0, cost := 0\<rparr>) = Inr (w', v') \<and>
               get_consumer w' d ?p = Inr c' \<and>
               open_order_quantity (open_orders c') (v_facility v) ?p
                 = open_order_quantity (open_orders c) (v_facility v) ?p - 10 \<and>
               received c' = received c \<and>
               (\<forall>f. storage (facilities w' f) = storage (facilities w f)) \<and>
               destination v' = None \<and> path v' = None \<and> payload v' = 0 \<and> steps v' = 0 \<and>
               location v' = 0 \<and> requested_quantity v' = 0 \<and> v_product_id v' = 0 \<and>
               patient v' = max_patient v"
    using t4 ledger rec idle get_consumer_set_consumer storage_set_consumer by blast
  then show ?thesis
    using t1 t2 t3 by (simp add: next_step_def Let_def)
qed

text \<open>
  The scheduled vehicle in the world whose source holds none of the product: after the
  fourth tick the ledger entry has fallen from 10 to 0, the destination's storage still
  holds 9 units, and the vehicle has no destination and no payload.
\<close>

theorem starved_loading_witness:
  "0 < steps ex_scheduled \<and> location ex_scheduled = 0 \<and> payload ex_scheduled = 0 \<and>
   patient ex_scheduled = 3 \<and> requested_quantity ex_scheduled = 10 \<and>
   destination ex_scheduled = Some 2 \<and>
   get_product_number (storage (facilities ex_world (v_facility ex_scheduled)))
     (v_product_id ex_scheduled) = 0 \<and>
   open_orders_at ex_world 2 1 1 = Some 10 \<and>
   patient (snd (state_of (VehicleUnit_step 1 (ex_world, ex_scheduled)))) = 2 \<and>
   returned ex_starved \<and>
   open_orders_at (fst (state_of ex_starved)) 2 1 1 = Some 0 \<and>
   get_product_number (storage (facilities (fst (state_of ex_starved)) 2)) 1 = 9 \<and>
   destination (snd (state_of ex_starved)) = None \<and>
   payload (snd (state_of ex_starved)) = 0 \<and>
   patient (snd (state_of ex_starved)) = 3"
proof -
  have h1: "0 < steps ex_scheduled" by code_simp
  have h2: "location ex_scheduled = 0" by code_simp
  have h3: "payload ex_scheduled = 0" by code_simp
  have h4: "patient ex_scheduled = 3" by code_simp
  have h5: "requested_quantity ex_scheduled = 10" by code_simp
  have h6: "destination ex_scheduled = Some 2" by code_simp
  have p: "v_product_id ex_scheduled = 1" by code_simp
  have f: "v_facility ex_scheduled = 1" by code_simp
  have m: "max_patient ex_scheduled = 3" by code_simp
  have h7: "get_consumer ex_world 2 (v_product_id ex_scheduled) = Inr ex_consumer"
    by (simp add: p ex_consumer_at_destination)
  have h8: "get_product_number (storage (facilities ex_world (v_facility ex_scheduled)))
      (v_product_id ex_scheduled) = 0"
    by code_simp
  have q: "open_order_quantity (open_orders ex_consumer) 1 1 = 10" by code_simp
  have g: "get_product_number (storage (facilities ex_world 2)) 1 = 9" by code_simp
  have before: "open_orders_at ex_world 2 1 1 = Some 10"
    by (simp add: open_orders_at_def ex_consumer_at_destination q)
  have after: "patient (snd (state_of (VehicleUnit_step 1 (ex_world, ex_scheduled)))) = 2 \<and>
      returned ex_starved \<and>
      open_orders_at (fst (state_of ex_starved)) 2 1 1 = Some 0 \<and>
      get_product_number (storage (facilities (fst (state_of ex_starved)) 2)) 1 = 9 \<and>
      destination (snd (state_of ex_starved)) = None \<and>
      payload (snd (state_of ex_starved)) = 0 \<and>
      patient (snd (state_of ex_starved)) = 3"
    using starved_loading [OF h1 h2 h3 h4 h5 h6 h7 h8]
    by (auto simp add: Let_def ex_starved_def state_of_def returned_def open_orders_at_def p f m q g)
  show ?thesis using h1 h2 h3 h4 h5 h6 h8 before after by simp
qed

subsection \<open>Consumer: the pending-order window\<close>




text \<open>
  C10. For every valid action with lead time 0 whose order is placed, \<open>step\<close> adds the
  ordered quantity to the last bucket of the pending-order window, the bucket of the
  largest tracked lead time: the bucket index is \<open>vlt - 1 = -1\<close>, which selects the final
  slot. After the shift that slot holds 0, so it then holds the quantity.
\<close>

theorem step_zero_lead_time:
  assumes "c_action c = Some a"
    and "0 < a_quantity a" and "0 < a_product_id a" and "a_source_id a \<noteq> 0"
    and "place_order (a_source_id a)
           \<lparr>o_destination = c_facility c, o_product_id = a_product_id a,
            o_quantity = a_quantity a, o_vlt = a_vlt a\<rparr> = Some order_cost"
    and "a_vlt a = 0"
    and "pending_order_daily c \<noteq> []"
  shows "returned (ConsumerUnit_step place_order tick c) \<and>
         pending_order_daily (fst (state_of (ConsumerUnit_step place_order tick c)))
           = tl (pending_order_daily c) @ [a_quantity a] \<and>
         last (pending_order_daily (fst (state_of (ConsumerUnit_step place_order tick c))))
           = a_quantity a"
proof -
  obtain b bs where old: "pending_order_daily c = b # bs"
    using assms by (cases "pending_order_daily c") auto
  have idx: "a_vlt a < int (length (pending_order_daily c)) \<Longrightarrow>
      py_index (length (pending_order_daily c)) (a_vlt a - 1) = Some (length bs)"
    using assms by (simp add: old py_index_def Let_def)
  have sh: "shift (pending_order_daily c) (- 1) 0 = bs @ [0]"
    by (simp add: old shift_left_one)
  have lt: "a_vlt a < int (length (pending_order_daily c))"
    using assms by (simp add: old)
  have "returned (ConsumerUnit_step place_order tick c) \<and>
      pending_order_daily (fst (state_of (ConsumerUnit_step place_order tick c)))
        = (bs @ [0])[length bs := (bs @ [0]) ! length bs + a_quantity a]"
    using step_valid_placed [of c a place_order order_cost "length bs" tick] assms(1-5) idx lt
    by (simp add: Let_def sh)
  then show ?thesis by (simp add: old)
qed

text \<open>The consumer with window \<open>[0, 10, 0]\<close> orders 5 units with lead time 0: the window
  becomes \<open>[10, 0, 5]\<close>.\<close>

theorem step_zero_lead_time_witness:
  "c_action ex_zero_lead_time
     = Some \<lparr>a_product_id = 1, a_source_id = 1, a_quantity = 5, a_vlt = 0\<rparr> \<and>
   pending_order_daily ex_zero_lead_time \<noteq> [] \<and>
   returned (ConsumerUnit_step ex_place_order 1 ex_zero_lead_time) \<and>
   pending_order_daily (fst (state_of (ConsumerUnit_step ex_place_order 1 ex_zero_lead_time)))
     = [10, 0, 5]"
proof -
  let ?a = "\<lparr>a_product_id = 1, a_source_id = 1, a_quantity = 5, a_vlt = 0\<rparr>"
  have a: "c_action ex_zero_lead_time = Some ?a" by code_simp
  have p: "pending_order_daily ex_zero_lead_time = [0, 10, 0]" by code_simp
  have ne: "pending_order_daily ex_zero_lead_time \<noteq> []" using p by simp
  have po: "ex_place_order (a_source_id ?a)
      \<lparr>o_destination = c_facility ex_zero_lead_time, o_product_id = a_product_id ?a,
       o_quantity = a_quantity ?a, o_vlt = a_vlt ?a\<rparr> = Some 2"
    by (simp add: ex_place_order_def)
  show ?thesis
    using step_zero_lead_time [of ex_zero_lead_time ?a ex_place_order 2 1] a ne p po by simp
qed

subsection \<open>Consumer: actions that are ignored\<close>

text \<open>
  C8, amended. On every tick on which the action of the consumer has a quantity that is
  zero or negative, a product id that is zero or negative, or a source id that is zero,
  \<open>step\<close> ignores the action: no order is placed, the open-order ledger, the purchased
  counter and the order cost are unchanged, and the only change of state is the shift of
  the pending-order window. (A negative source id is not ignored: the guard of the code
  is \<open>source_id == 0\<close>, ids being 1-based.)
\<close>

theorem step_ignores_invalid_action:
  assumes "c_action c = Some a"
    and "a_quantity a \<le> 0 \<or> a_product_id a \<le> 0 \<or> a_source_id a = 0"
  shows "ConsumerUnit_step place_order tick c =
           Inr (c\<lparr>pending_order_daily :=
                    (if pending_order_daily c = [] then [] else tl (pending_order_daily c) @ [0])\<rparr>,
                [])"
  using assms step_no_valid_action [of c place_order tick]
  by (simp add: shift_left_one)

text \<open>The consumer with window \<open>[0, 10, 0]\<close> and an action of quantity 0: the window
  becomes \<open>[10, 0, 0]\<close> and nothing else changes.\<close>

theorem step_ignores_invalid_action_witness:
  "c_action ex_zero_quantity
     = Some \<lparr>a_product_id = 1, a_source_id = 1, a_quantity = 0, a_vlt = 2\<rparr> \<and>
   a_quantity \<lparr>a_product_id = 1, a_source_id = 1, a_quantity = 0, a_vlt = 2\<rparr> \<le> 0 \<and>
   ConsumerUnit_step ex_place_order 1 ex_zero_quantity
     = Inr (ex_zero_quantity\<lparr>pending_order_daily := [10, 0, 0]\<rparr>, [])"
proof -
  let ?z = "\<lparr>a_product_id = 1, a_source_id = 1, a_quantity = 0, a_vlt = 2\<rparr>"
  have z: "c_action ex_zero_quantity = Some ?z" by code_simp
  have q: "a_quantity ?z \<le> 0 \<or> a_product_id ?z \<le> 0 \<or> a_source_id ?z = 0" by simp
  have p: "pending_order_daily ex_zero_quantity = [0, 10, 0]" by code_simp
  show ?thesis
    using step_ignores_invalid_action [OF z q, of ex_place_order 1] z p by simp
qed

text \<open>
  The claim as stated fails for a negative source id. The consumer has an action of
  quantity 5 for product 1 from source \<open>-1\<close>. Where the world knows no such facility the
  call raises, but only after the ledger entry of \<open>(-1, 1)\<close> has risen from 0 to 5; where
  the order is placed, the ledger entry, the purchased counter and the order cost all
  change and one order is handed over.
\<close>

theorem step_ignores_invalid_action_counterexample:
  "open_order_quantity (open_orders ex_negative_source) (- 1) 1 = 0 \<and>
   purchased ex_negative_source = 0 \<and>
   order_product_cost ex_negative_source = 0 \<and>
   \<not> returned (ConsumerUnit_step ex_no_facility 1 ex_negative_source) \<and>
   open_order_quantity
     (open_orders (fst (state_of (ConsumerUnit_step ex_no_facility 1 ex_negative_source))))
     (- 1) 1 = 5 \<and>
   returned (ConsumerUnit_step ex_place_order 1 ex_negative_source) \<and>
   open_order_quantity
     (open_orders (fst (state_of (ConsumerUnit_step ex_place_order 1 ex_negative_source))))
     (- 1) 1 = 5 \<and>
   purchased (fst (state_of (ConsumerUnit_step ex_place_order 1 ex_negative_source))) = 5 \<and>
   order_product_cost (fst (state_of (ConsumerUnit_step ex_place_order 1 ex_negative_source))) = 2 \<and>
   snd (state_of (ConsumerUnit_step ex_place_order 1 ex_negative_source))
     = [(- 1, \<lparr>o_destination = 2, o_product_id = 1, o_quantity = 5, o_vlt = 2\<rparr>)]"
  by code_simp

subsection \<open>Vehicle: partial delivery\<close>

text \<open>
  C1, amended. A vehicle has arrived (no steps remain) with a payload of 10 units and
  the destination storage has only 4 units of free capacity. The step of the tick
  delivers 4 units into the destination storage through \<open>try_add\<close> without
  all-or-nothing, the received counter of the destination's consumer increases by 4,
  and the consumer's open-order ledger entry for (source facility, product) decreases
  by 10: the vehicle passes its payload as the quantity originally ordered.
\<close>

theorem partial_delivery:
  assumes "steps v = 0" and "payload v = 10" and "destination v = Some d"
    and "remaining_space (storage (facilities w d)) = 4"
    and "get_consumer w d (v_product_id v) = Inr c"
  shows "\<exists>w' v' c'. VehicleUnit_step tick (w, v) = Inr (w', v') \<and>
           get_product_number (storage (facilities w' d)) (v_product_id v)
             = get_product_number (storage (facilities w d)) (v_product_id v) + 4 \<and>
           get_consumer w' d (v_product_id v) = Inr c' \<and>
           received c' = received c + 4 \<and>
           open_order_quantity (open_orders c') (v_facility v) (v_product_id v)
             = open_order_quantity (open_orders c) (v_facility v) (v_product_id v) - 10"
proof -
  let ?p = "v_product_id v"
  let ?st = "add_product ?p 4 (storage (facilities w d))"
  let ?c = "on_order_reception (v_facility v) ?p 4 10 c"
  have add: "try_add_products [(?p, payload v)] False (storage (facilities w d)) = ([(?p, 4)], ?st)"
    using assms by (simp add: try_add_single)
  have unload: "try_unload (w, v) =
      Inr (set_consumer d ?p ?c (set_storage d ?st w), v\<lparr>payload := 6, v_dm_payload := 6\<rparr>)"
    using assms add by (simp add: try_unload_def get_consumer_set_storage)
  have "\<exists>v'. VehicleUnit_step tick (w, v) = Inr (set_consumer d ?p ?c (set_storage d ?st w), v')"
    using assms unload by (simp add: VehicleUnit_step_def)
  moreover have "get_product_number (storage (facilities (set_consumer d ?p ?c (set_storage d ?st w)) d)) ?p
      = get_product_number (storage (facilities w d)) ?p + 4"
    by (simp add: storage_set_consumer storage_set_storage get_product_number_add_product)
  moreover have "received ?c = received c + 4"
    by (simp add: on_order_reception_def update_open_orders_def)
  moreover have "open_order_quantity (open_orders ?c) (v_facility v) ?p
      = open_order_quantity (open_orders c) (v_facility v) ?p - 10"
    by (simp add: on_order_reception_def update_open_orders_def open_order_quantity_add)
  ultimately show ?thesis
    using get_consumer_set_consumer by blast
qed

text \<open>
  The arrived vehicle at the destination with 4 free units: the storage rises from 9 to
  13 units of the product, the consumer has received 4, and its ledger entry has fallen
  from 10 to 0.
\<close>

theorem partial_delivery_witness:
  "steps ex_arrived_vehicle = 0 \<and> payload ex_arrived_vehicle = 10 \<and>
   destination ex_arrived_vehicle = Some 2 \<and>
   remaining_space (storage (facilities ex_world 2)) = 4 \<and>
   get_consumer ex_world 2 (v_product_id ex_arrived_vehicle) = Inr ex_consumer \<and>
   (\<exists>w' v' c'. VehicleUnit_step 4 (ex_world, ex_arrived_vehicle) = Inr (w', v') \<and>
      get_product_number (storage (facilities w' 2)) 1 = 13 \<and>
      get_consumer w' 2 1 = Inr c' \<and> received c' = 4 \<and>
      open_order_quantity (open_orders c') 1 1 = 0)"
proof -
  have h1: "steps ex_arrived_vehicle = 0" by code_simp
  have h2: "payload ex_arrived_vehicle = 10" by code_simp
  have h3: "destination ex_arrived_vehicle = Some 2" by code_simp
  have h4: "remaining_space (storage (facilities ex_world 2)) = 4" by code_simp
  have p: "v_product_id ex_arrived_vehicle = 1" by code_simp
  have f: "v_facility ex_arrived_vehicle = 1" by code_simp
  have h5: "get_consumer ex_world 2 (v_product_id ex_arrived_vehicle) = Inr ex_consumer"
    by (simp add: p ex_consumer_at_destination)
  have g: "get_product_number (storage (facilities ex_world 2)) 1 = 9" by code_simp
  have r: "received ex_consumer = 0" by code_simp
  have q: "open_order_quantity (open_orders ex_consumer) 1 1 = 10" by code_simp
  show ?thesis
    using partial_delivery [OF h1 h2 h3 h4 h5, of 4] h1 h2 h3 h4 h5
    by (simp add: p f g r q)
qed

text \<open>
  The claim as stated fails on the scheduled vehicle of the stocked world. After tick 3
  it has arrived with payload 10, the destination has 4 free units and the ledger entry
  is 10. The step of tick 4 returns with 13 units in the destination storage, but the
  ledger entry is 0, not \<open>10 - 4\<close>, and the vehicle is reset: its payload is 0, not 6,
  and it has no destination, so on tick 5 nothing more is delivered.
\<close>

theorem partial_delivery_counterexample:
  "returned ex_arrived \<and>
   steps (snd (state_of ex_arrived)) = 0 \<and>
   payload (snd (state_of ex_arrived)) = 10 \<and>
   remaining_space (storage (facilities (fst (state_of ex_arrived)) 2)) = 4 \<and>
   open_orders_at (fst (state_of ex_arrived)) 2 1 1 = Some 10 \<and>
   returned ex_unloaded \<and>
   get_product_number (storage (facilities (fst (state_of ex_unloaded)) 2)) 1 = 13 \<and>
   open_orders_at (fst (state_of ex_unloaded)) 2 1 1 = Some 0 \<and>
   open_orders_at (fst (state_of ex_unloaded)) 2 1 1 \<noteq> Some (10 - 4) \<and>
   payload (snd (state_of ex_unloaded)) = 0 \<and>
   payload (snd (state_of ex_unloaded)) \<noteq> 6 \<and>
   destination (snd (state_of ex_unloaded)) = None \<and>
   returned ex_next_tick \<and>
   get_product_number (storage (facilities (fst (state_of ex_next_tick)) 2)) 1 = 13"
  by code_simp

subsection \<open>Vehicle: the transport cost\<close>

text \<open>
  C6, amended. After every \<open>step\<close> that returns, the transport cost of the vehicle is its
  current payload multiplied by the unit transport cost, in every state but one: on the
  tick on which the vehicle loads (steps remain, location 0, payload 0, and the source
  storage gives the requested quantity) \<open>step\<close> returns right after loading, the payload
  is the requested quantity and the cost keeps the value it had before the step.
\<close>

theorem step_cost:
  assumes "VehicleUnit_step tick (w, v) = Inr (w', v')"
  shows "if steps v > 0 \<and> location v = 0 \<and> payload v = 0 \<and>
            fst (try_load (requested_quantity v) (w, v))
         then cost v' = cost v \<and> payload v' = requested_quantity v
         else cost v' = payload v' * unit_transport_cost v'"
proof (cases "steps v > 0")
  case arrived: False
  then show ?thesis using assms
    by (auto simp add: VehicleUnit_step_def record_cost_def split: if_splits sum.splits)
next
  case True
  show ?thesis
  proof (cases "location v = 0 \<and> payload v = 0")
    case False
    then have "move (w, v) = Inr (w', v')" using True assms
      by (auto simp add: VehicleUnit_step_def)
    then show ?thesis using False by (auto dest: move_cost)
  next
    case idle: True
    obtain ok w1 v1 where tl: "try_load (requested_quantity v) (w, v) = (ok, w1, v1)"
      by (cases "try_load (requested_quantity v) (w, v)") auto
    show ?thesis
    proof (cases ok)
      case True
      then have "v' = v1" using tl assms \<open>steps v > 0\<close> idle
        by (simp add: VehicleUnit_step_def)
      moreover have "cost v1 = cost v \<and> payload v1 = requested_quantity v" using tl True
        by (auto simp add: try_load_def Let_def split: prod.splits if_splits)
      ultimately show ?thesis using tl True \<open>steps v > 0\<close> idle by simp
    next
      case False
      then have "(\<exists>s3. abandon (w1, v1\<lparr>patient := patient v1 - 1\<rparr>) = Inr s3 \<and> move s3 = Inr (w', v'))
                 \<or> move (w1, v1\<lparr>patient := patient v1 - 1\<rparr>) = Inr (w', v')"
        using tl assms \<open>steps v > 0\<close> idle
        by (auto simp add: VehicleUnit_step_def Let_def split: if_splits sum.splits)
      then have "cost v' = payload v' * unit_transport_cost v'"
        by (auto dest: move_cost)
      then show ?thesis using tl False by simp
    qed
  qed
qed

text \<open>The loaded vehicle moves on tick 2: the step returns and the cost is the payload
  10 times the unit cost 1.\<close>

theorem step_cost_witness:
  "VehicleUnit_step 2 (fst (state_of ex_loaded), snd (state_of ex_loaded))
     = Inr (fst (state_of ex_moved), snd (state_of ex_moved)) \<and>
   payload (snd (state_of ex_loaded)) = 10 \<and>
   cost (snd (state_of ex_moved)) = 10 \<and>
   cost (snd (state_of ex_moved))
     = payload (snd (state_of ex_moved)) * unit_transport_cost (snd (state_of ex_moved))"
proof -
  have r1: "returned ex_loaded" by code_simp
  have r2: "returned ex_moved" by code_simp
  have "next_step 2 (Inr (state_of ex_loaded)) = VehicleUnit_step 2 (state_of ex_loaded)"
    by (simp add: next_step_def)
  then have "ex_moved = VehicleUnit_step 2 (state_of ex_loaded)"
    using returned_Inr [OF r1] by (simp add: ex_moved_def)
  then have e: "VehicleUnit_step 2 (fst (state_of ex_loaded), snd (state_of ex_loaded))
      = Inr (fst (state_of ex_moved), snd (state_of ex_moved))"
    using returned_Inr [OF r2] by simp
  have p: "payload (snd (state_of ex_loaded)) = 10" by code_simp
  have q: "payload (snd (state_of ex_moved)) = 10" by code_simp
  have u: "unit_transport_cost (snd (state_of ex_moved)) = 1" by code_simp
  show ?thesis
    using step_cost [OF e] e p q u by simp
qed

text \<open>
  The claim as stated fails on the tick on which the vehicle loads. The scheduled
  vehicle of the stocked world, whose cost is 0, loads 10 units on tick 1: the step
  returns with payload 10 and unit cost 1, and the cost is still 0, not 10.
\<close>

theorem step_cost_counterexample:
  "cost ex_scheduled = 0 \<and>
   returned ex_loaded \<and>
   payload (snd (state_of ex_loaded)) = 10 \<and>
   unit_transport_cost (snd (state_of ex_loaded)) = 1 \<and>
   cost (snd (state_of ex_loaded)) = 0 \<and>
   cost (snd (state_of ex_loaded))
     \<noteq> payload (snd (state_of ex_loaded)) * unit_transport_cost (snd (state_of ex_loaded))"
  by code_simp

subsection \<open>Reset\<close>

text \<open>
  C3. The claim is that \<open>reset()\<close> brings a consumer and a vehicle back to the state
  right after \<open>initialize()\<close>, with the per-tick counters at zero. The code does not: the
  \<open>reset\<close> of the vehicle clears the job and restores the patience but leaves \<open>cost\<close>,
  and the \<open>reset\<close> of the consumer clears the ledger and the window but leaves
  \<open>order_product_cost\<close>. The vehicle that has loaded and moved one tick has cost 10, and
  still has cost 10 after \<open>reset\<close>, where the initialized vehicle has cost 0. The
  consumer that has ordered at cost 2 for one full tick still has order cost 2 after
  \<open>reset\<close>, where the initialized consumer has 0.
\<close>

theorem reset_keeps_costs:
  "cost ex_vehicle = 0 \<and>
   returned ex_moved \<and>
   cost (snd (state_of ex_moved)) = 10 \<and>
   cost (VehicleUnit_reset (snd (state_of ex_moved))) = 10 \<and>
   destination (VehicleUnit_reset (snd (state_of ex_moved))) = None \<and>
   payload (VehicleUnit_reset (snd (state_of ex_moved))) = 0 \<and>
   steps (VehicleUnit_reset (snd (state_of ex_moved))) = 0 \<and>
   patient (VehicleUnit_reset (snd (state_of ex_moved))) = 3 \<and>
   VehicleUnit_reset (snd (state_of ex_moved)) \<noteq> ex_vehicle \<and>
   order_product_cost ex_new_consumer = 0 \<and>
   received ex_ticked = 0 \<and> purchased ex_ticked = 0 \<and>
   order_product_cost (ConsumerUnit_reset ex_data_model_reset 3 ex_ticked) = 2 \<and>
   pending_order_daily (ConsumerUnit_reset ex_data_model_reset 3 ex_ticked) = [0, 0, 0] \<and>
   open_order_quantity (open_orders (ConsumerUnit_reset ex_data_model_reset 3 ex_ticked)) 1 1 = 0"
  by code_simp

end
